theory Spec2Isabelle
  imports Main
begin

section \<open>Data model\<close>

text \<open>
  The interfaces declared at the top of the gated Admin component. Field names are those
  of the source; \<open>id\<close>, \<open>name\<close>, \<open>email\<close>, \<open>phone\<close> and \<open>created_at\<close> occur in
  several interfaces and carry a prefix here. Timestamps are instants (the source carries
  them as ISO-8601 strings and the store orders rows by the instant).
\<close>

type_synonym timestamp = nat

datatype role = R_user | R_moderator | R_admin

fun role_str :: "role \<Rightarrow> string" where
  "role_str R_user = ''user''"
| "role_str R_moderator = ''moderator''"
| "role_str R_admin = ''admin''"

datatype status = Pending | Resolved

record User =
  u_id :: string
  u_name :: string
  u_email :: string
  institution :: "string option"
  u_phone :: "string option"
  u_created_at :: timestamp

record UserRole =
  ur_id :: string
  user_id :: string
  role :: role
  assigned_by :: string
  ur_created_at :: timestamp

record Complaint =
  c_id :: string
  c_email :: string
  c_phone :: string
  subject :: string
  message :: string
  status :: status
  c_created_at :: timestamp
  admin_reply :: "string option"
  replied_at :: "timestamp option"
  replied_by :: "string option"

record Contact =
  k_id :: string
  k_name :: string
  k_email :: string
  k_message :: string
  k_created_at :: timestamp

text \<open>The signed-in identity handed out by \<open>useAuth()\<close>; only its \<open>id\<close> is read.\<close>

record AuthUser =
  au_id :: string

section \<open>The remote store\<close>

datatype StoreError = StoreError string

text \<open>
  What happens to one call of the store client: it is served, the store answers with
  \<open>{ data: null, error }\<close>, or the call itself throws (the awaited promise rejects).
\<close>

datatype call_fate = Served | Refused StoreError | Crashed StoreError

datatype 'a response = Response (data: "'a option") (error: "StoreError option")

text \<open>The payload of \<open>upsert\<close> and the patch of \<open>update\<close>, as the component builds them.\<close>

record UserRoleInput =
  in_user_id :: string
  in_role :: role
  in_assigned_by :: string

text \<open>
  A property whose value is \<open>undefined\<close> is dropped when the patch is serialised, so
  \<open>p_replied_by = None\<close> is a patch without that column.
\<close>

record ComplaintPatch =
  p_status :: status
  p_admin_reply :: string
  p_replied_at :: timestamp
  p_replied_by :: "string option"

datatype request =
    Select_role_single string
  | Select_ordered string
  | Upsert_user_role UserRoleInput
  | Delete_user_role string
  | Update_complaint ComplaintPatch string

record backend =
  users_tbl :: "User list"
  user_roles_tbl :: "UserRole list"
  complaints_tbl :: "Complaint list"
  contacts_tbl :: "Contact list"
  requests :: "request list"

definition issue :: "request \<Rightarrow> backend \<Rightarrow> backend" where
  "issue r b = b\<lparr>requests := requests b @ [r]\<rparr>"

text \<open>Modelled from the spec: the store client (\<open>lib/supabase\<close>) and the hosted tables
  are not among the sources; the component only calls them. The lookup of the resolver,
  \<open>.select('role').eq('user_id', uid).single()\<close>, fetches the role assignment matching
  the identity (the spec: the role if found, the default if no record exists or the lookup
  fails). It is the client's single-row read: the answer is the row when exactly one row
  matches, and an error when none or several do.\<close>

definition select_role_single ::
  "call_fate \<Rightarrow> string \<Rightarrow> backend \<Rightarrow> (StoreError + role response) \<times> backend" where
  "select_role_single fate uid b =
     (let b' = issue (Select_role_single uid) b in
      case fate of
        Crashed e \<Rightarrow> (Inl e, b')
      | Refused e \<Rightarrow> (Inr (Response None (Some e)), b')
      | Served \<Rightarrow>
          (case filter (\<lambda>r. user_id r = uid) (user_roles_tbl b) of
             [r] \<Rightarrow> (Inr (Response (Some (role r)) None), b')
           | _ \<Rightarrow> (Inr (Response None (Some (StoreError ''PGRST116''))), b')))"

text \<open>Modelled from the spec: \<open>read(collection, orderBy, direction) -> rows[]\<close>, here
  \<open>.select('*').order('created_at', { ascending: false })\<close>: all rows, newest first.\<close>

definition newest_first :: "('row \<Rightarrow> timestamp) \<Rightarrow> 'row list \<Rightarrow> 'row list" where
  "newest_first created rows = rev (sort_key created rows)"

definition select_ordered ::
  "call_fate \<Rightarrow> string \<Rightarrow> ('row \<Rightarrow> timestamp) \<Rightarrow> 'row list \<Rightarrow> backend
     \<Rightarrow> (StoreError + 'row list response) \<times> backend" where
  "select_ordered fate tbl created rows b =
     (let b' = issue (Select_ordered tbl) b in
      case fate of
        Crashed e \<Rightarrow> (Inl e, b')
      | Refused e \<Rightarrow> (Inr (Response None (Some e)), b')
      | Served \<Rightarrow> (Inr (Response (Some (newest_first created rows)) None), b'))"

text \<open>Modelled from the spec: \<open>upsert(collection, record)\<close>, insert-or-update-if-exists keyed
  on the account reference. An existing row keeps its \<open>id\<close> and \<open>created_at\<close> and takes
  the new role and assigner; otherwise a row is inserted with the identifier and
  creation time the store generates (\<open>new_id\<close>, \<open>now\<close>). A failed write changes nothing.\<close>

definition upsert_rows :: "UserRoleInput \<Rightarrow> string \<Rightarrow> timestamp \<Rightarrow> UserRole list \<Rightarrow> UserRole list" where
  "upsert_rows inp new_id now rows =
     (case find (\<lambda>r. user_id r = in_user_id inp) rows of
        Some _ \<Rightarrow>
          map (\<lambda>r. if user_id r = in_user_id inp
                   then r\<lparr>role := in_role inp, assigned_by := in_assigned_by inp\<rparr> else r) rows
      | None \<Rightarrow>
          rows @ [\<lparr>ur_id = new_id, user_id = in_user_id inp, role = in_role inp,
                   assigned_by = in_assigned_by inp, ur_created_at = now\<rparr>])"

definition upsert_user_role ::
  "call_fate \<Rightarrow> UserRoleInput \<Rightarrow> string \<Rightarrow> timestamp \<Rightarrow> backend
     \<Rightarrow> (StoreError + unit response) \<times> backend" where
  "upsert_user_role fate inp new_id now b =
     (let b' = issue (Upsert_user_role inp) b in
      case fate of
        Crashed e \<Rightarrow> (Inl e, b')
      | Refused e \<Rightarrow> (Inr (Response None (Some e)), b')
      | Served \<Rightarrow>
          (Inr (Response None None),
           b'\<lparr>user_roles_tbl := upsert_rows inp new_id now (user_roles_tbl b)\<rparr>))"

text \<open>Modelled from the spec: \<open>delete(collection, filter)\<close>, here \<open>.delete().eq('id', roleId)\<close>;
  deleting zero matching rows is not an error.\<close>

definition delete_user_role ::
  "call_fate \<Rightarrow> string \<Rightarrow> backend \<Rightarrow> (StoreError + unit response) \<times> backend" where
  "delete_user_role fate roleId b =
     (let b' = issue (Delete_user_role roleId) b in
      case fate of
        Crashed e \<Rightarrow> (Inl e, b')
      | Refused e \<Rightarrow> (Inr (Response None (Some e)), b')
      | Served \<Rightarrow>
          (Inr (Response None None),
           b'\<lparr>user_roles_tbl := filter (\<lambda>r. ur_id r \<noteq> roleId) (user_roles_tbl b)\<rparr>))"

text \<open>Modelled from the spec: \<open>update(collection, filter, patch)\<close>, here
  \<open>.update(patch).eq('id', complaintId)\<close>: one atomic write of the columns the patch
  carries to every matching row.\<close>

definition apply_patch :: "ComplaintPatch \<Rightarrow> Complaint \<Rightarrow> Complaint" where
  "apply_patch p c =
     c\<lparr>status := p_status p,
       admin_reply := Some (p_admin_reply p),
       replied_at := Some (p_replied_at p),
       replied_by := (case p_replied_by p of None \<Rightarrow> replied_by c | Some w \<Rightarrow> Some w)\<rparr>"

definition update_complaint ::
  "call_fate \<Rightarrow> ComplaintPatch \<Rightarrow> string \<Rightarrow> backend \<Rightarrow> (StoreError + unit response) \<times> backend" where
  "update_complaint fate p cid b =
     (let b' = issue (Update_complaint p cid) b in
      case fate of
        Crashed e \<Rightarrow> (Inl e, b')
      | Refused e \<Rightarrow> (Inr (Response None (Some e)), b')
      | Served \<Rightarrow>
          (Inr (Response None None),
           b'\<lparr>complaints_tbl :=
                map (\<lambda>c. if c_id c = cid then apply_patch p c else c) (complaints_tbl b)\<rparr>))"

section \<open>The gated Admin component\<close>

text \<open>
  The component's \<open>useState\<close> cells, together with what it writes to the console, the
  alerts it raises, and the rejections of promises nobody awaits.
\<close>

record Admin_state =
  users :: "User list"
  userRoles :: "UserRole list"
  complaints :: "Complaint list"
  isLoading :: bool
  currentUserRole :: string
  showRoleModal :: bool
  selectedUser :: "User option"
  newRole :: role
  showReplyModal :: bool
  selectedComplaint :: "Complaint option"
  replyMessage :: string
  isReplying :: bool
  console :: "(string \<times> StoreError) list"
  alerts :: "string list"
  unhandled :: "StoreError list"

definition Admin_init :: Admin_state where
  "Admin_init =
     \<lparr>users = [], userRoles = [], complaints = [], isLoading = True,
      currentUserRole = ''user'', showRoleModal = False, selectedUser = None,
      newRole = R_user, showReplyModal = False, selectedComplaint = None,
      replyMessage = [], isReplying = False, console = [], alerts = [], unhandled = []\<rparr>"

text \<open>How an \<open>async\<close> function ends: its promise is fulfilled, or rejected with what was thrown.\<close>

datatype completion = Fulfilled | Rejected StoreError

definition console_error :: "string \<Rightarrow> StoreError \<Rightarrow> Admin_state \<Rightarrow> Admin_state" where
  "console_error msg e s = s\<lparr>console := console s @ [(msg, e)]\<rparr>"

definition alert :: "string \<Rightarrow> Admin_state \<Rightarrow> Admin_state" where
  "alert msg s = s\<lparr>alerts := alerts s @ [msg]\<rparr>"

text \<open>\<open>x || d\<close> on an optional string: \<open>undefined\<close>, \<open>null\<close> and \<open>''\<close> are falsy.\<close>

fun js_or :: "string option \<Rightarrow> string \<Rightarrow> string" where
  "js_or None d = d"
| "js_or (Some x) d = (if x = [] then d else x)"

subsection \<open>Authorization Resolver\<close>

definition checkUserRole ::
  "AuthUser option \<Rightarrow> call_fate \<Rightarrow> backend \<times> Admin_state \<Rightarrow> completion \<times> backend \<times> Admin_state" where
  "checkUserRole user fate w =
     (let b = fst w; s = snd w in
      case user of
        None \<Rightarrow> (Fulfilled, b, s)
      | Some u \<Rightarrow>
          (case select_role_single fate (au_id u) b of
             (Inl e, b') \<Rightarrow>
               (Fulfilled, b',
                (console_error ''Error checking user role:'' e s)\<lparr>currentUserRole := ''user''\<rparr>)
           | (Inr resp, b') \<Rightarrow>
               (case error resp of
                  Some e \<Rightarrow> (Fulfilled, b', s\<lparr>currentUserRole := ''user''\<rparr>)
                | None \<Rightarrow>
                    (Fulfilled, b',
                     s\<lparr>currentUserRole := js_or (map_option role_str (data resp)) ''user''\<rparr>))))"

subsection \<open>Admin Data Aggregator\<close>

definition loadUsers ::
  "call_fate \<Rightarrow> backend \<times> Admin_state \<Rightarrow> completion \<times> backend \<times> Admin_state" where
  "loadUsers fate w =
     (let s = snd w in
      case select_ordered fate ''users'' u_created_at (users_tbl (fst w)) (fst w) of
        (Inl e, b') \<Rightarrow> (Rejected e, b', s)
      | (Inr resp, b') \<Rightarrow>
          (case error resp of
             Some e \<Rightarrow> (Fulfilled, b', console_error ''Error loading users:'' e s)
           | None \<Rightarrow> (Fulfilled, b', s\<lparr>users := (case data resp of None \<Rightarrow> [] | Some d \<Rightarrow> d)\<rparr>)))"

definition loadUserRoles ::
  "call_fate \<Rightarrow> backend \<times> Admin_state \<Rightarrow> completion \<times> backend \<times> Admin_state" where
  "loadUserRoles fate w =
     (let s = snd w in
      case select_ordered fate ''user_roles'' ur_created_at (user_roles_tbl (fst w)) (fst w) of
        (Inl e, b') \<Rightarrow> (Rejected e, b', s)
      | (Inr resp, b') \<Rightarrow>
          (case error resp of
             Some e \<Rightarrow> (Fulfilled, b', console_error ''Error loading user roles:'' e s)
           | None \<Rightarrow> (Fulfilled, b', s\<lparr>userRoles := (case data resp of None \<Rightarrow> [] | Some d \<Rightarrow> d)\<rparr>)))"

definition loadComplaints ::
  "call_fate \<Rightarrow> backend \<times> Admin_state \<Rightarrow> completion \<times> backend \<times> Admin_state" where
  "loadComplaints fate w =
     (let s = snd w in
      case select_ordered fate ''complaints'' c_created_at (complaints_tbl (fst w)) (fst w) of
        (Inl e, b') \<Rightarrow> (Rejected e, b', s)
      | (Inr resp, b') \<Rightarrow>
          (case error resp of
             Some e \<Rightarrow> (Fulfilled, b', console_error ''Error loading complaints:'' e s)
           | None \<Rightarrow> (Fulfilled, b', s\<lparr>complaints := (case data resp of None \<Rightarrow> [] | Some d \<Rightarrow> d)\<rparr>)))"

text \<open>
  \<open>Promise.all\<close> rejects with the first rejection among its members and does not stop
  the others, which run to their end.
\<close>

fun first_rejection :: "completion list \<Rightarrow> StoreError option" where
  "first_rejection [] = None"
| "first_rejection (Rejected e # cs) = Some e"
| "first_rejection (Fulfilled # cs) = first_rejection cs"

text \<open>
  The three loaders start in the order of the array, so their requests leave in that
  order; each writes a state cell of its own and reads a table of its own, so the order in
  which the answers arrive does not show in the cells. The model runs them in the order
  of the array.
\<close>

definition loadAdminData ::
  "call_fate \<Rightarrow> call_fate \<Rightarrow> call_fate \<Rightarrow> backend \<times> Admin_state
     \<Rightarrow> completion \<times> backend \<times> Admin_state" where
  "loadAdminData f1 f2 f3 w =
     (let s0 = (snd w)\<lparr>isLoading := True\<rparr>;
          r1 = loadUsers f1 (fst w, s0);
          r2 = loadUserRoles f2 (snd r1);
          r3 = loadComplaints f3 (snd r2);
          s3 = snd (snd r3);
          s4 = (case first_rejection [fst r1, fst r2, fst r3] of
                  None \<Rightarrow> s3
                | Some e \<Rightarrow> console_error ''Error loading admin data:'' e s3)
      in (Fulfilled, fst (snd r3), s4\<lparr>isLoading := False\<rparr>))"

text \<open>A call that is not awaited: its rejection, if any, is nobody's to catch.\<close>

definition detached :: "completion \<times> backend \<times> Admin_state \<Rightarrow> backend \<times> Admin_state" where
  "detached r =
     (case fst r of
        Fulfilled \<Rightarrow> snd r
      | Rejected e \<Rightarrow> (fst (snd r), (snd (snd r))\<lparr>unhandled := unhandled (snd (snd r)) @ [e]\<rparr>))"

subsection \<open>Role Mutation Service\<close>

text \<open>What the \<open>try\<close> block sees of a store call: the thrown value, or the \<open>error\<close> it rethrows.\<close>

fun failure :: "StoreError + 'a response \<Rightarrow> StoreError option" where
  "failure (Inl e) = Some e"
| "failure (Inr resp) = error resp"

definition assignRole ::
  "AuthUser option \<Rightarrow> call_fate \<Rightarrow> string \<Rightarrow> timestamp \<Rightarrow> call_fate
     \<Rightarrow> backend \<times> Admin_state \<Rightarrow> completion \<times> backend \<times> Admin_state" where
  "assignRole user fate new_id now refresh w =
     (let b = fst w; s = snd w in
      case selectedUser s of
        None \<Rightarrow> (Fulfilled, b, s)
      | Some su \<Rightarrow>
          (case user of
             None \<Rightarrow> (Fulfilled, b, s)
           | Some u \<Rightarrow>
               (let r = upsert_user_role fate
                          \<lparr>in_user_id = u_id su, in_role = newRole s, in_assigned_by = au_id u\<rparr>
                          new_id now b
                in case failure (fst r) of
                     Some e \<Rightarrow>
                       (Fulfilled, snd r,
                        alert ''Failed to assign role. Please try again.''
                          (console_error ''Error assigning role:'' e s))
                   | None \<Rightarrow>
                       (let w' = detached (loadUserRoles refresh
                                   (snd r, s\<lparr>showRoleModal := False, selectedUser := None\<rparr>))
                        in (Fulfilled, fst w',
                            alert (''Role '' @ role_str (newRole s) @ '' assigned successfully!'')
                              (snd w'))))))"

definition removeRole ::
  "string \<Rightarrow> call_fate \<Rightarrow> call_fate \<Rightarrow> backend \<times> Admin_state
     \<Rightarrow> completion \<times> backend \<times> Admin_state" where
  "removeRole roleId fate refresh w =
     (let s = snd w; r = delete_user_role fate roleId (fst w) in
      case failure (fst r) of
        Some e \<Rightarrow>
          (Fulfilled, snd r,
           alert ''Failed to remove role. Please try again.''
             (console_error ''Error removing role:'' e s))
      | None \<Rightarrow>
          (let w' = detached (loadUserRoles refresh (snd r, s))
           in (Fulfilled, fst w', alert ''Role removed successfully!'' (snd w'))))"

subsection \<open>Complaint Resolution Service\<close>

text \<open>
  \<open>String.prototype.trim\<close> on the characters a \<open>char\<close> can hold (Latin-1): tab, line
  feed, vertical tab, form feed, carriage return, space and no-break space are white space.
\<close>

definition js_whitespace :: "char \<Rightarrow> bool" where
  "js_whitespace c =
     (c \<in> set [CHR 0x09, CHR 0x0A, CHR 0x0B, CHR 0x0C, CHR 0x0D, CHR 0x20, CHR 0xA0])"

definition trim :: "string \<Rightarrow> string" where
  "trim s = rev (dropWhile js_whitespace (rev (dropWhile js_whitespace s)))"

definition handleReply ::
  "AuthUser option \<Rightarrow> timestamp \<Rightarrow> call_fate \<Rightarrow> call_fate
     \<Rightarrow> backend \<times> Admin_state \<Rightarrow> completion \<times> backend \<times> Admin_state" where
  "handleReply user now fate refresh w =
     (let b = fst w; s = snd w in
      case selectedComplaint s of
        None \<Rightarrow> (Fulfilled, b, s)
      | Some c \<Rightarrow>
          if trim (replyMessage s) = [] then (Fulfilled, b, s)
          else
            (let s1 = s\<lparr>isReplying := True\<rparr>;
                 r = update_complaint fate
                       \<lparr>p_status = Resolved, p_admin_reply = trim (replyMessage s),
                        p_replied_at = now, p_replied_by = map_option au_id user\<rparr>
                       (c_id c) b;
                 w' = (case failure (fst r) of
                         Some e \<Rightarrow>
                           (snd r,
                            alert ''Failed to send reply. Please try again.''
                              (console_error ''Error sending reply:'' e s1))
                       | None \<Rightarrow>
                           (let w'' = detached (loadComplaints refresh
                                        (snd r, s1\<lparr>showReplyModal := False,
                                                    selectedComplaint := None,
                                                    replyMessage := []\<rparr>))
                            in (fst w'', alert ''Reply sent successfully!'' (snd w''))))
             in (Fulfilled, fst w', (snd w')\<lparr>isReplying := False\<rparr>)))"

subsection \<open>Effects, rendering and form events\<close>

text \<open>
  The two \<open>useEffect\<close> hooks: the resolver runs when the signed-in identity changes to
  somebody, the aggregator when the resolved role changes to \<open>admin\<close>.
\<close>

definition user_effect ::
  "AuthUser option \<Rightarrow> call_fate \<Rightarrow> backend \<times> Admin_state \<Rightarrow> backend \<times> Admin_state" where
  "user_effect user fate w = (case user of None \<Rightarrow> w | Some u \<Rightarrow> snd (checkUserRole user fate w))"

definition role_effect ::
  "call_fate \<Rightarrow> call_fate \<Rightarrow> call_fate \<Rightarrow> backend \<times> Admin_state \<Rightarrow> backend \<times> Admin_state" where
  "role_effect f1 f2 f3 w =
     (if currentUserRole (snd w) = ''admin'' then snd (loadAdminData f1 f2 f3 w) else w)"

datatype screen = Access_denied | Loading_panel | Admin_panel

definition render :: "Admin_state \<Rightarrow> screen" where
  "render s =
     (if currentUserRole s \<noteq> ''admin'' then Access_denied
      else if isLoading s then Loading_panel
      else Admin_panel)"

text \<open>
  The \<open>Reply\<close> button of a complaint of the view (shown while its status is pending) and
  the text area of the reply form.
\<close>

definition reply_click :: "Complaint \<Rightarrow> Admin_state \<Rightarrow> Admin_state" where
  "reply_click c s = s\<lparr>selectedComplaint := Some c, showReplyModal := True\<rparr>"

definition reply_onChange :: "string \<Rightarrow> Admin_state \<Rightarrow> Admin_state" where
  "reply_onChange txt s = s\<lparr>replyMessage := txt\<rparr>"

text \<open>
  The \<open>Manage Role\<close> button of an account row and the role selector of the modal.
  \<open>getUserRole\<close> returns the string of the role it finds, or \<open>user\<close>; here it returns
  the role whose string that is.
\<close>

definition getUserRole :: "Admin_state \<Rightarrow> string \<Rightarrow> role" where
  "getUserRole s userId =
     (case find (\<lambda>r. user_id r = userId) (userRoles s) of
        None \<Rightarrow> R_user
      | Some r \<Rightarrow> role r)"

definition manageRole_click :: "User \<Rightarrow> Admin_state \<Rightarrow> Admin_state" where
  "manageRole_click account s =
     s\<lparr>selectedUser := Some account, newRole := getUserRole s (u_id account),
       showRoleModal := True\<rparr>"

definition newRole_onChange :: "role \<Rightarrow> Admin_state \<Rightarrow> Admin_state" where
  "newRole_onChange r s = s\<lparr>newRole := r\<rparr>"

section \<open>The second Admin dashboard and the routes\<close>

record Dashboard_state =
  d_complaints :: "Complaint list"
  d_contacts :: "Contact list"
  loading :: bool


text \<open>
  \<open>fetchData\<close> awaits the two reads one after the other and looks at \<open>data\<close> only; a
  read that throws rejects \<open>fetchData\<close> before anything is set.
\<close>

definition fetchData ::
  "call_fate \<Rightarrow> call_fate \<Rightarrow> backend \<times> Dashboard_state
     \<Rightarrow> completion \<times> backend \<times> Dashboard_state" where
  "fetchData f1 f2 w =
     (let d = snd w in
      case select_ordered f1 ''complaints'' c_created_at (complaints_tbl (fst w)) (fst w) of
        (Inl e, b1) \<Rightarrow> (Rejected e, b1, d)
      | (Inr r1, b1) \<Rightarrow>
          (case select_ordered f2 ''contacts'' k_created_at (contacts_tbl b1) b1 of
             (Inl e, b2) \<Rightarrow> (Rejected e, b2, d)
           | (Inr r2, b2) \<Rightarrow>
               (Fulfilled, b2,
                d\<lparr>d_complaints := (case data r1 of None \<Rightarrow> d_complaints d | Some x \<Rightarrow> x),
                  d_contacts := (case data r2 of None \<Rightarrow> d_contacts d | Some x \<Rightarrow> x),
                  loading := False\<rparr>)))"




subsection \<open>The routes\<close>

text \<open>
  The elements \<open>AppRoutes\<close> builds: a component identifier with its children, or
  \<open><Navigate to=... replace />\<close>. Building an element evaluates its identifier and
  then its children.
\<close>

datatype jsx = Element string "jsx list" | Navigate string

fun identifiers :: "jsx \<Rightarrow> string list" where
  "identifiers (Element n cs) = n # concat (map identifiers cs)"
| "identifiers (Navigate p) = [''Navigate'']"

text \<open>The identifiers the module of \<open>AppRoutes\<close> imports or declares.\<close>

definition module_scope :: "string list" where
  "module_scope =
     [''React'', ''Router'', ''Routes'', ''Route'', ''Navigate'', ''AuthProvider'', ''useAuth'',
      ''DataProvider'', ''ThemeProvider'', ''FriendsProvider'', ''Landing'', ''SignIn'',
      ''SignUp'', ''Dashboard'', ''Calendar'', ''GroupStudy'', ''StudyStatus'', ''Notes'',
      ''Admin'', ''PasswordReset'', ''ProtectedRoute'', ''AppRoutes'', ''App'']"

definition route_table :: "AuthUser option \<Rightarrow> (string \<times> jsx) list" where
  "route_table user =
     [(''/'', if user \<noteq> None then Navigate ''/dashboard'' else Element ''Landing'' []),
      (''/signin'', if user \<noteq> None then Navigate ''/dashboard'' else Element ''SignIn'' []),
      (''/signup'', if user \<noteq> None then Navigate ''/dashboard'' else Element ''SignUp'' []),
      (''/reset-password'', Element ''PasswordReset'' []),
      (''/dashboard'', Element ''ProtectedRoute'' [Element ''Dashboard'' []]),
      (''/calendar'', Element ''ProtectedRoute'' [Element ''Calendar'' []]),
      (''/group-study'', Element ''ProtectedRoute'' [Element ''GroupStudy'' []]),
      (''/notes'', Element ''ProtectedRoute'' [Element ''Notes'' []]),
      (''/study-status'', Element ''ProtectedRoute'' [Element ''StudyStatus'' []]),
      (''/admin'', Element ''Admin'' []),
      (''/moderator'', Element ''ModeratorPanel'' [])]"

datatype js_error = ReferenceError string

text \<open>
  \<open>AppRoutes\<close> returns the \<open>Routes\<close> element with one \<open>Route\<close> per entry of the
  table. Every element is built when the function runs, so an identifier outside the
  module's scope throws there, whatever the path.
\<close>

definition AppRoutes :: "AuthUser option \<Rightarrow> js_error + (string \<times> jsx) list" where
  "AppRoutes user =
     (case find (\<lambda>n. n \<notin> set module_scope)
             (''Routes'' # concat (map (\<lambda>r. ''Route'' # identifiers (snd r)) (route_table user))) of
        Some n \<Rightarrow> Inl (ReferenceError n)
      | None \<Rightarrow> Inr (route_table user))"

section \<open>Sample data\<close>

definition alice :: User where
  "alice = \<lparr>u_id = ''A'', u_name = ''Alice'', u_email = ''alice@example.org'',
            institution = None, u_phone = None, u_created_at = 1\<rparr>"

definition viewer_A :: AuthUser where
  "viewer_A = \<lparr>au_id = ''A''\<rparr>"

definition root :: AuthUser where
  "root = \<lparr>au_id = ''root''\<rparr>"

definition root_is_admin :: UserRole where
  "root_is_admin = \<lparr>ur_id = ''r0'', user_id = ''root'', role = R_admin,
                    assigned_by = ''root'', ur_created_at = 0\<rparr>"

definition bug_report :: Complaint where
  "bug_report = \<lparr>c_id = ''C1'', c_email = ''x@y.com'', c_phone = ''555'', subject = ''Bug'',
                 message = ''It crashes'', status = Pending, c_created_at = 2,
                 admin_reply = None, replied_at = None, replied_by = None\<rparr>"


definition sample_backend :: backend where
  "sample_backend = \<lparr>users_tbl = [alice], user_roles_tbl = [root_is_admin],
                     complaints_tbl = [bug_report], contacts_tbl = [], requests = []\<rparr>"

text \<open>
  The round trip of account \<open>A\<close>: \<open>A\<close> opens the panel, the administrator makes
  \<open>A\<close> a moderator, \<open>A\<close> opens the panel again, the administrator removes the row
  of \<open>A\<close>, and \<open>A\<close> opens the panel once more.
\<close>

definition trip_first_visit :: "completion \<times> backend \<times> Admin_state" where
  "trip_first_visit = checkUserRole (Some viewer_A) Served (sample_backend, Admin_init)"

definition trip_assigned :: "completion \<times> backend \<times> Admin_state" where
  "trip_assigned =
     assignRole (Some root) Served ''r1'' 5 Served
       (fst (snd trip_first_visit),
        newRole_onChange R_moderator (manageRole_click alice Admin_init))"

definition trip_second_visit :: "completion \<times> backend \<times> Admin_state" where
  "trip_second_visit = checkUserRole (Some viewer_A) Served (fst (snd trip_assigned), Admin_init)"

definition trip_removed :: "completion \<times> backend \<times> Admin_state" where
  "trip_removed =
     removeRole ''r1'' Served Served (fst (snd trip_second_visit), snd (snd trip_assigned))"

definition trip_third_visit :: "completion \<times> backend \<times> Admin_state" where
  "trip_third_visit = checkUserRole (Some viewer_A) Served (fst (snd trip_removed), Admin_init)"

text \<open>
  An administrator's session: \<open>root\<close> signs in, the resolver and then the aggregator
  run, and \<open>root\<close> opens the reply form of the bug report and types a reply.
\<close>

definition admin_session :: "backend \<times> Admin_state" where
  "admin_session =
     role_effect Served Served Served (user_effect (Some root) Served (sample_backend, Admin_init))"

definition reply_draft :: Admin_state where
  "reply_draft = reply_onChange ''Fixed in v2'' (reply_click bug_report (snd admin_session))"

section \<open>Auxiliary facts\<close>

lemmas store_defs = select_role_single_def select_ordered_def upsert_user_role_def
  delete_user_role_def update_complaint_def issue_def

lemmas sample_defs = alice_def viewer_A_def root_def root_is_admin_def bug_report_def
  sample_backend_def Admin_init_def

lemma role_str_nonempty: "role_str r \<noteq> []"
  by (cases r) simp_all

lemma dropWhile_all: "list_all P xs \<Longrightarrow> dropWhile P xs = []"
  by (induction xs) auto

lemma trim_blank: "list_all js_whitespace txt \<Longrightarrow> trim txt = []"
  by (simp add: trim_def dropWhile_all)

lemma trim_empty_iff: "trim txt = [] \<longleftrightarrow> list_all js_whitespace txt"
proof
  assume "trim txt = []"
  then have "dropWhile js_whitespace txt = []"
    by (simp add: trim_def dropWhile_eq_Nil_conv) (metis dropWhile.simps(1) dropWhile_eq_Nil_conv rev_is_Nil_conv set_rev dropWhile_idem hd_dropWhile list.set_sel(1) rev.simps(1))
  then show "list_all js_whitespace txt"
    by (simp add: dropWhile_eq_Nil_conv list_all_iff)
qed (rule trim_blank)

lemma find_None_filter: "find P xs = None \<longleftrightarrow> filter P xs = []"
  by (induction xs) auto

lemma filter_overwrite_same:
  "filter (\<lambda>r. user_id r = k)
     (map (\<lambda>r. if user_id r = k then r\<lparr>role := x, assigned_by := y\<rparr> else r) xs)
   = map (\<lambda>r. r\<lparr>role := x, assigned_by := y\<rparr>) (filter (\<lambda>r. user_id r = k) xs)"
  by (induction xs) auto

lemma filter_overwrite_other:
  "k \<noteq> j \<Longrightarrow>
   filter (\<lambda>r. user_id r = k)
     (map (\<lambda>r. if user_id r = j then r\<lparr>role := x, assigned_by := y\<rparr> else r) xs)
   = filter (\<lambda>r. user_id r = k) xs"
  by (induction xs) auto

lemma upsert_rows_matching:
  "filter (\<lambda>r. user_id r = in_user_id inp) (upsert_rows inp i n rows) =
     (if filter (\<lambda>r. user_id r = in_user_id inp) rows = []
      then [\<lparr>ur_id = i, user_id = in_user_id inp, role = in_role inp,
             assigned_by = in_assigned_by inp, ur_created_at = n\<rparr>]
      else map (\<lambda>r. r\<lparr>role := in_role inp, assigned_by := in_assigned_by inp\<rparr>)
             (filter (\<lambda>r. user_id r = in_user_id inp) rows))"
proof (cases "find (\<lambda>r. user_id r = in_user_id inp) rows")
  case None
  moreover from None have "filter (\<lambda>r. user_id r = in_user_id inp) rows = []"
    by (simp add: find_None_filter)
  ultimately show ?thesis
    by (simp add: upsert_rows_def)
next
  case (Some a)
  moreover from Some have "filter (\<lambda>r. user_id r = in_user_id inp) rows \<noteq> []"
    using find_None_filter [of "\<lambda>r. user_id r = in_user_id inp" rows] by simp
  ultimately show ?thesis
    by (simp add: upsert_rows_def filter_overwrite_same)
qed

lemma upsert_rows_others:
  "k \<noteq> in_user_id inp \<Longrightarrow>
     filter (\<lambda>r. user_id r = k) (upsert_rows inp i n rows) = filter (\<lambda>r. user_id r = k) rows"
  by (simp add: upsert_rows_def filter_overwrite_other split: option.splits)

lemma upsert_rows_one_row:
  assumes "length (filter (\<lambda>r. user_id r = in_user_id inp) rows) \<le> 1"
  shows "\<exists>row. filter (\<lambda>r. user_id r = in_user_id inp) (upsert_rows inp i n rows) = [row]
           \<and> role row = in_role inp \<and> assigned_by row = in_assigned_by inp"
proof (cases "filter (\<lambda>r. user_id r = in_user_id inp) rows")
  case Nil
  then show ?thesis by (simp add: upsert_rows_matching)
next
  case (Cons a as)
  with assms have "as = []" by simp
  with Cons show ?thesis by (simp add: upsert_rows_matching)
qed

lemma assignRole_Served:
  assumes "selectedUser s = Some acct"
  shows "user_roles_tbl (fst (snd (assignRole (Some adm) Served i n rf (b, s)))) =
           upsert_rows \<lparr>in_user_id = u_id acct, in_role = newRole s, in_assigned_by = au_id adm\<rparr>
             i n (user_roles_tbl b)"
  using assms
  by (cases rf)
     (simp_all add: assignRole_def upsert_user_role_def Let_def issue_def detached_def
        loadUserRoles_def select_ordered_def)

lemma find_Some_filter: "find P xs = Some x \<Longrightarrow> \<exists>ys. filter P xs = x # ys"
  by (induction xs) (auto split: if_splits)

lemma checkUserRole_Served:
  assumes "checkUserRole (Some u) Served (b, s) = (c, b', s')"
  shows "user_roles_tbl b' = user_roles_tbl b"
    and "currentUserRole s' =
           (case filter (\<lambda>r. user_id r = au_id u) (user_roles_tbl b) of
              [r] \<Rightarrow> role_str (role r)
            | _ \<Rightarrow> ''user'')"
  using assms
  by (auto simp: checkUserRole_def store_defs Let_def role_str_nonempty split: list.splits)

lemma removeRole_Served:
  "user_roles_tbl (fst (snd (removeRole rid Served rf (b, s)))) =
     filter (\<lambda>r. ur_id r \<noteq> rid) (user_roles_tbl b)"
  by (cases rf)
     (simp_all add: removeRole_def store_defs Let_def detached_def loadUserRoles_def)

lemmas component_defs = checkUserRole_def assignRole_def removeRole_def handleReply_def
  loadAdminData_def loadUsers_def loadUserRoles_def loadComplaints_def detached_def
  console_error_def alert_def user_effect_def role_effect_def reply_click_def
  reply_onChange_def manageRole_click_def newRole_onChange_def getUserRole_def
  newest_first_def Let_def

lemma trip_tables:
  "user_roles_tbl (fst (snd trip_first_visit)) = [root_is_admin]"
  "user_roles_tbl (fst (snd trip_assigned)) =
     [root_is_admin,
      \<lparr>ur_id = ''r1'', user_id = ''A'', role = R_moderator, assigned_by = ''root'',
       ur_created_at = 5\<rparr>]"
  "user_roles_tbl (fst (snd trip_second_visit)) = user_roles_tbl (fst (snd trip_assigned))"
  "user_roles_tbl (fst (snd trip_removed)) = [root_is_admin]"
  by (simp_all add: trip_first_visit_def trip_assigned_def trip_second_visit_def
      trip_removed_def component_defs store_defs sample_defs upsert_rows_def)

lemma admin_session_view:
  "complaints_tbl (fst admin_session) = [bug_report]"
  "currentUserRole (snd admin_session) = ''admin''"
  "isLoading (snd admin_session) = False"
  "complaints (snd admin_session) = [bug_report]"
  by (simp_all add: admin_session_def component_defs store_defs sample_defs)

section \<open>Authorization Resolver\<close>

text \<open>
  C4. For a signed-in account with no role assignment, and whenever the lookup fails (the
  store answers with an error, or the call throws), the resolver sets the current role to
  \<open>user\<close>; its promise is fulfilled, so nothing reaches the caller.
\<close>

theorem resolver_defaults_to_user:
  assumes "filter (\<lambda>r. user_id r = au_id u) (user_roles_tbl b) = [] \<or> fate \<noteq> Served"
  shows "\<exists>b' s'. checkUserRole (Some u) fate (b, s) = (Fulfilled, b', s')
           \<and> currentUserRole s' = ''user''"
  using assms
  by (cases fate) (auto simp: checkUserRole_def store_defs Let_def console_error_def split: list.splits)

theorem resolver_defaults_to_user_witness:
  "(filter (\<lambda>r. user_id r = au_id viewer_A) (user_roles_tbl sample_backend) = []
      \<or> Refused (StoreError ''offline'') \<noteq> Served)
   \<and> (\<exists>b' s'. checkUserRole (Some viewer_A) (Refused (StoreError ''offline''))
                  (sample_backend, Admin_init\<lparr>currentUserRole := ''admin''\<rparr>) = (Fulfilled, b', s')
           \<and> currentUserRole s' = ''user'')"
proof -
  have h: "filter (\<lambda>r. user_id r = au_id viewer_A) (user_roles_tbl sample_backend) = []
             \<or> Refused (StoreError ''offline'') \<noteq> Served"
    by (simp add: sample_defs)
  show ?thesis
    using h resolver_defaults_to_user [OF h, of "Admin_init\<lparr>currentUserRole := ''admin''\<rparr>"]
    by simp
qed

text \<open>
  C5. When exactly one role assignment matches the account and the lookup is served, the
  resolver sets the current role to that row's role.
\<close>

theorem resolver_single_row:
  assumes "filter (\<lambda>r. user_id r = au_id u) (user_roles_tbl b) = [row]"
  shows "\<exists>b' s'. checkUserRole (Some u) Served (b, s) = (Fulfilled, b', s')
           \<and> currentUserRole s' = role_str (role row)"
  using assms
  by (simp add: checkUserRole_def select_role_single_def Let_def role_str_nonempty)

theorem resolver_single_row_witness:
  "filter (\<lambda>r. user_id r = au_id root) (user_roles_tbl sample_backend) = [root_is_admin]
   \<and> (\<exists>b' s'. checkUserRole (Some root) Served (sample_backend, Admin_init) = (Fulfilled, b', s')
           \<and> currentUserRole s' = ''admin'')"
proof -
  have h: "filter (\<lambda>r. user_id r = au_id root) (user_roles_tbl sample_backend) = [root_is_admin]"
    by (simp add: sample_defs)
  have "role_str (role root_is_admin) = ''admin''"
    by (simp add: root_is_admin_def)
  with h resolver_single_row [OF h, of Admin_init] show ?thesis
    by simp
qed

text \<open>
  C9. When several role assignments match the account, the single-row lookup is an error
  and the resolver sets the current role to \<open>user\<close>, whatever the rows say.
\<close>

theorem resolver_several_rows:
  assumes "1 < length (filter (\<lambda>r. user_id r = au_id u) (user_roles_tbl b))"
  shows "\<exists>b' s'. checkUserRole (Some u) fate (b, s) = (Fulfilled, b', s')
           \<and> currentUserRole s' = ''user''"
  using assms
  by (cases fate) (auto simp: checkUserRole_def store_defs Let_def console_error_def split: list.splits)

theorem resolver_several_rows_witness:
  "1 < length (filter (\<lambda>r. user_id r = au_id root)
                 (user_roles_tbl (sample_backend\<lparr>user_roles_tbl :=
                    [root_is_admin, root_is_admin\<lparr>ur_id := ''r1'', role := R_moderator\<rparr>]\<rparr>)))
   \<and> (\<exists>b' s'. checkUserRole (Some root) Served
                  (sample_backend\<lparr>user_roles_tbl :=
                     [root_is_admin, root_is_admin\<lparr>ur_id := ''r1'', role := R_moderator\<rparr>]\<rparr>,
                   Admin_init) = (Fulfilled, b', s')
           \<and> currentUserRole s' = ''user'')"
proof -
  let ?b = "sample_backend\<lparr>user_roles_tbl :=
              [root_is_admin, root_is_admin\<lparr>ur_id := ''r1'', role := R_moderator\<rparr>]\<rparr>"
  have h: "1 < length (filter (\<lambda>r. user_id r = au_id root) (user_roles_tbl ?b))"
    by (simp add: sample_defs)
  show ?thesis
    using h resolver_several_rows [OF h, of Served Admin_init] by simp
qed

section \<open>Admin Data Aggregator\<close>

text \<open>
  C8. A run of the aggregator on the freshly mounted view in which exactly one of the three
  reads fails (the store answers with an error, or the call throws): the two other
  collections hold what their reads returned, the failed one stays empty, one line is
  written to the console, all three requests were sent, and the view stops loading.
\<close>

theorem loadAdminData_one_failure:
  assumes "length (filter (\<lambda>f. f \<noteq> Served) [f1, f2, f3]) = 1"
    and "users s = []" and "userRoles s = []" and "complaints s = []"
    and "loadAdminData f1 f2 f3 (b, s) = (cmp, b', s')"
  shows "users s' = (if f1 = Served then newest_first u_created_at (users_tbl b) else [])
       \<and> userRoles s' = (if f2 = Served then newest_first ur_created_at (user_roles_tbl b) else [])
       \<and> complaints s' = (if f3 = Served then newest_first c_created_at (complaints_tbl b) else [])
       \<and> (\<exists>msg e. console s' = console s @ [(msg, e)])
       \<and> requests b' = requests b @
            [Select_ordered ''users'', Select_ordered ''user_roles'', Select_ordered ''complaints'']
       \<and> isLoading s' = False \<and> cmp = Fulfilled"
  using assms
  by (cases f1; cases f2; cases f3)
     (auto simp: loadAdminData_def loadUsers_def loadUserRoles_def loadComplaints_def
        store_defs Let_def console_error_def)

theorem loadAdminData_one_failure_witness:
  "length (filter (\<lambda>f. f \<noteq> Served) [Served, Served, Crashed (StoreError ''boom'')]) = 1
   \<and> users (snd (snd (loadAdminData Served Served (Crashed (StoreError ''boom''))
                         (sample_backend, Admin_init)))) = [alice]
   \<and> userRoles (snd (snd (loadAdminData Served Served (Crashed (StoreError ''boom''))
                         (sample_backend, Admin_init)))) = [root_is_admin]
   \<and> complaints (snd (snd (loadAdminData Served Served (Crashed (StoreError ''boom''))
                         (sample_backend, Admin_init)))) = []
   \<and> console (snd (snd (loadAdminData Served Served (Crashed (StoreError ''boom''))
                         (sample_backend, Admin_init))))
       = [(''Error loading admin data:'', StoreError ''boom'')]"
proof -
  let ?r = "loadAdminData Served Served (Crashed (StoreError ''boom'')) (sample_backend, Admin_init)"
  have h1: "length (filter (\<lambda>f. f \<noteq> Served) [Served, Served, Crashed (StoreError ''boom'')]) = 1"
    by simp
  have h2: "users Admin_init = []" "userRoles Admin_init = []" "complaints Admin_init = []"
    by (simp_all add: Admin_init_def)
  have h3: "?r = (fst ?r, fst (snd ?r), snd (snd ?r))"
    by simp
  have c: "console (snd (snd ?r)) = [(''Error loading admin data:'', StoreError ''boom'')]"
    by (simp add: loadAdminData_def loadUsers_def loadUserRoles_def loadComplaints_def
        store_defs Let_def console_error_def Admin_init_def)
  have n: "newest_first u_created_at (users_tbl sample_backend) = [alice]"
    "newest_first ur_created_at (user_roles_tbl sample_backend) = [root_is_admin]"
    by (simp_all add: newest_first_def sample_backend_def)
  from loadAdminData_one_failure [OF h1 h2 h3] h1 c n show ?thesis
    by simp
qed

section \<open>Complaint Resolution Service\<close>

text \<open>
  C6. A reply that is empty or all white space is turned away before the store is called:
  the backend, its request log included, and the component state are what they were.
\<close>

theorem handleReply_blank_reply:
  assumes "list_all js_whitespace (replyMessage s)"
  shows "handleReply user now fate rf (b, s) = (Fulfilled, b, s)"
  using trim_blank [OF assms]
  by (simp add: handleReply_def split: option.splits)

theorem handleReply_blank_reply_witness:
  "list_all js_whitespace '' '' \<and>
   handleReply (Some root) 7 Served Served
     (sample_backend, reply_onChange '' '' (reply_click bug_report Admin_init))
   = (Fulfilled, sample_backend, reply_onChange '' '' (reply_click bug_report Admin_init))"
proof -
  have h: "list_all js_whitespace (replyMessage (reply_onChange '' '' (reply_click bug_report Admin_init)))"
    by (simp add: reply_onChange_def js_whitespace_def)
  show ?thesis
    using handleReply_blank_reply [OF h, of "Some root" 7 Served Served sample_backend]
    by (simp add: js_whitespace_def)
qed

text \<open>
  C7. When the write of a reply fails (the store answers with an error, or the call
  throws), the complaints table is unchanged, the error goes to the console and an alert
  is raised, and the draft, the selected complaint and the open form stay as they were;
  the draft is emptied when the write is served.
\<close>

theorem handleReply_store_failure:
  assumes "selectedComplaint s = Some c" and "trim (replyMessage s) \<noteq> []"
    and "handleReply user now fate rf (b, s) = (cmp, b', s')"
  shows "(fate \<noteq> Served \<longrightarrow>
            complaints_tbl b' = complaints_tbl b
          \<and> replyMessage s' = replyMessage s
          \<and> showReplyModal s' = showReplyModal s
          \<and> selectedComplaint s' = Some c
          \<and> (\<exists>e. fate \<in> {Refused e, Crashed e}
                 \<and> console s' = console s @ [(''Error sending reply:'', e)])
          \<and> alerts s' = alerts s @ [''Failed to send reply. Please try again.'']
          \<and> isReplying s' = False \<and> cmp = Fulfilled)
       \<and> (fate = Served \<longrightarrow> replyMessage s' = [])"
  using assms
  by (cases fate; cases rf)
     (auto simp: handleReply_def store_defs Let_def console_error_def alert_def detached_def
        loadComplaints_def)

theorem handleReply_store_failure_witness:
  "selectedComplaint (reply_onChange ''Fixed in v2'' (reply_click bug_report Admin_init)) = Some bug_report
   \<and> trim ''Fixed in v2'' \<noteq> []
   \<and> complaints_tbl (fst (snd (handleReply (Some root) 7 (Refused (StoreError ''denied'')) Served
          (sample_backend, reply_onChange ''Fixed in v2'' (reply_click bug_report Admin_init)))))
       = [bug_report]
   \<and> replyMessage (snd (snd (handleReply (Some root) 7 (Refused (StoreError ''denied'')) Served
          (sample_backend, reply_onChange ''Fixed in v2'' (reply_click bug_report Admin_init)))))
       = ''Fixed in v2''
   \<and> alerts (snd (snd (handleReply (Some root) 7 (Refused (StoreError ''denied'')) Served
          (sample_backend, reply_onChange ''Fixed in v2'' (reply_click bug_report Admin_init)))))
       = [''Failed to send reply. Please try again.'']"
proof -
  let ?s = "reply_onChange ''Fixed in v2'' (reply_click bug_report Admin_init)"
  let ?r = "handleReply (Some root) 7 (Refused (StoreError ''denied'')) Served (sample_backend, ?s)"
  have h1: "selectedComplaint ?s = Some bug_report"
    by (simp add: reply_onChange_def reply_click_def)
  have t: "trim ''Fixed in v2'' = ''Fixed in v2''"
    by (simp add: trim_def js_whitespace_def)
  have m: "replyMessage ?s = ''Fixed in v2''"
    by (simp add: reply_onChange_def)
  have h2: "trim (replyMessage ?s) \<noteq> []"
    by (simp only: m t) simp
  have h3: "?r = (fst ?r, fst (snd ?r), snd (snd ?r))"
    by simp
  have a: "alerts ?s = []" "complaints_tbl sample_backend = [bug_report]"
    by (simp_all add: reply_onChange_def reply_click_def Admin_init_def sample_backend_def)
  from handleReply_store_failure [OF h1 h2 h3] h1 t m a show ?thesis
    by simp
qed

section \<open>Role Mutation Service\<close>

text \<open>
  C1. Two served assignments to the same account, with any two role values, leave exactly
  one role assignment for that account in a table that held at most one before (the key of
  the upsert is unique), and that row carries the role applied last.
\<close>

theorem assignRole_twice_one_row:
  assumes "length (filter (\<lambda>r. user_id r = u_id acct) (user_roles_tbl b)) \<le> 1"
    and "selectedUser s1 = Some acct" and "selectedUser s2 = Some acct"
    and "assignRole (Some adm1) Served i1 n1 rf1 (b, s1) = (c1, b1, s1')"
    and "assignRole (Some adm2) Served i2 n2 rf2 (b1, s2) = (c2, b2, s2')"
  shows "\<exists>row. filter (\<lambda>r. user_id r = u_id acct) (user_roles_tbl b2) = [row]
           \<and> role row = newRole s2 \<and> assigned_by row = au_id adm2"
proof -
  let ?inp1 = "\<lparr>in_user_id = u_id acct, in_role = newRole s1, in_assigned_by = au_id adm1\<rparr>"
  let ?inp2 = "\<lparr>in_user_id = u_id acct, in_role = newRole s2, in_assigned_by = au_id adm2\<rparr>"
  have t1: "user_roles_tbl b1 = upsert_rows ?inp1 i1 n1 (user_roles_tbl b)"
    using assignRole_Served [OF assms(2), of adm1 i1 n1 rf1 b] assms(4) by simp
  have t2: "user_roles_tbl b2 = upsert_rows ?inp2 i2 n2 (user_roles_tbl b1)"
    using assignRole_Served [OF assms(3), of adm2 i2 n2 rf2 b1] assms(5) by simp
  from assms(1) obtain r1 where
    "filter (\<lambda>r. user_id r = u_id acct) (user_roles_tbl b1) = [r1]"
    using upsert_rows_one_row [of ?inp1 "user_roles_tbl b" i1 n1] t1 by auto
  then have "length (filter (\<lambda>r. user_id r = in_user_id ?inp2) (user_roles_tbl b1)) \<le> 1"
    by simp
  from upsert_rows_one_row [OF this, of i2 n2] t2 show ?thesis by simp
qed

theorem assignRole_twice_one_row_witness:
  "length (filter (\<lambda>r. user_id r = u_id alice) (user_roles_tbl sample_backend)) \<le> 1
   \<and> (\<exists>row. filter (\<lambda>r. user_id r = u_id alice)
          (user_roles_tbl (fst (snd (assignRole (Some root) Served ''r2'' 6 Served
             (fst (snd (assignRole (Some root) Served ''r1'' 5 Served
                (sample_backend, newRole_onChange R_moderator (manageRole_click alice Admin_init)))),
              newRole_onChange R_admin (manageRole_click alice Admin_init)))))) = [row]
        \<and> role row = R_admin)"
proof -
  let ?s1 = "newRole_onChange R_moderator (manageRole_click alice Admin_init)"
  let ?s2 = "newRole_onChange R_admin (manageRole_click alice Admin_init)"
  let ?r1 = "assignRole (Some root) Served ''r1'' 5 Served (sample_backend, ?s1)"
  let ?r2 = "assignRole (Some root) Served ''r2'' 6 Served (fst (snd ?r1), ?s2)"
  have h1: "length (filter (\<lambda>r. user_id r = u_id alice) (user_roles_tbl sample_backend)) \<le> 1"
    by (simp add: sample_defs)
  have h2: "selectedUser ?s1 = Some alice" and h3: "selectedUser ?s2 = Some alice"
    by (simp_all add: newRole_onChange_def manageRole_click_def)
  have h4: "?r1 = (fst ?r1, fst (snd ?r1), snd (snd ?r1))"
    by simp
  have h5: "?r2 = (fst ?r2, fst (snd ?r2), snd (snd ?r2))"
    by simp
  have n: "newRole ?s2 = R_admin"
    by (simp add: newRole_onChange_def)
  from assignRole_twice_one_row [OF h1 h2 h3 h4 h5] h1 n show ?thesis
    by auto
qed

text \<open>
  C3. Round trip. An account without a role assignment resolves to \<open>user\<close>; after a
  served assignment of \<open>moderator\<close> it resolves to \<open>moderator\<close>; after the served
  removal of its row it resolves to \<open>user\<close> again.
\<close>

theorem role_round_trip:
  assumes "filter (\<lambda>r. user_id r = au_id A) (user_roles_tbl b0) = []"
    and "checkUserRole (Some A) Served (b0, s0) = (c1, b1, s1)"
    and "selectedUser t1 = Some acct" and "u_id acct = au_id A" and "newRole t1 = R_moderator"
    and "assignRole (Some adm) Served i n rf (b1, t1) = (c2, b2, s2)"
    and "checkUserRole (Some A) Served (b2, t2) = (c3, b3, s3)"
    and "find (\<lambda>r. user_id r = au_id A) (user_roles_tbl b3) = Some row"
    and "removeRole (ur_id row) Served rf' (b3, t3) = (c4, b4, s4)"
    and "checkUserRole (Some A) Served (b4, t4) = (c5, b5, s5)"
  shows "currentUserRole s1 = ''user'' \<and> currentUserRole s3 = ''moderator''
       \<and> currentUserRole s5 = ''user''"
proof -
  let ?mine = "\<lambda>r. user_id r = au_id A"
  let ?inp = "\<lparr>in_user_id = u_id acct, in_role = newRole t1, in_assigned_by = au_id adm\<rparr>"
  have r1: "currentUserRole s1 = ''user''"
    using checkUserRole_Served(2) [OF assms(2)] assms(1) by simp
  have "user_roles_tbl b1 = user_roles_tbl b0"
    by (rule checkUserRole_Served(1) [OF assms(2)])
  moreover have "user_roles_tbl b2 = upsert_rows ?inp i n (user_roles_tbl b1)"
    using assignRole_Served [OF assms(3), of adm i n rf b1] assms(6) by simp
  ultimately have t2: "user_roles_tbl b2 = upsert_rows ?inp i n (user_roles_tbl b0)"
    by simp
  have mine2: "filter ?mine (user_roles_tbl b2) =
      [\<lparr>ur_id = i, user_id = au_id A, role = R_moderator, assigned_by = au_id adm,
        ur_created_at = n\<rparr>]"
    using upsert_rows_matching [of ?inp i n "user_roles_tbl b0"] assms(1,4,5) t2 by simp
  have r3: "currentUserRole s3 = ''moderator''"
    using checkUserRole_Served(2) [OF assms(7)] mine2 by simp
  have t3: "user_roles_tbl b3 = user_roles_tbl b2"
    by (rule checkUserRole_Served(1) [OF assms(7)])
  from find_Some_filter [OF assms(8)] mine2 t3 have row: "filter ?mine (user_roles_tbl b3) = [row]"
    by auto
  have "user_roles_tbl b4 = filter (\<lambda>r. ur_id r \<noteq> ur_id row) (user_roles_tbl b3)"
    using removeRole_Served [of "ur_id row" rf' b3 t3] assms(9) by simp
  then have "filter ?mine (user_roles_tbl b4)
      = filter (\<lambda>r. ur_id r \<noteq> ur_id row) (filter ?mine (user_roles_tbl b3))"
    by (simp add: conj_commute)
  with row have "filter ?mine (user_roles_tbl b4) = []"
    by simp
  then have r5: "currentUserRole s5 = ''user''"
    using checkUserRole_Served(2) [OF assms(10)] by simp
  from r1 r3 r5 show ?thesis by simp
qed

theorem role_round_trip_witness:
  "filter (\<lambda>r. user_id r = au_id viewer_A) (user_roles_tbl sample_backend) = []
   \<and> currentUserRole (snd (snd trip_first_visit)) = ''user''
   \<and> currentUserRole (snd (snd trip_second_visit)) = ''moderator''
   \<and> currentUserRole (snd (snd trip_third_visit)) = ''user''"
proof -
  let ?row = "\<lparr>ur_id = ''r1'', user_id = ''A'', role = R_moderator, assigned_by = ''root'',
               ur_created_at = 5\<rparr>"
  let ?t1 = "newRole_onChange R_moderator (manageRole_click alice Admin_init)"
  have h1: "filter (\<lambda>r. user_id r = au_id viewer_A) (user_roles_tbl sample_backend) = []"
    by (simp add: sample_defs)
  have h2: "checkUserRole (Some viewer_A) Served (sample_backend, Admin_init)
      = (fst trip_first_visit, fst (snd trip_first_visit), snd (snd trip_first_visit))"
    by (simp add: trip_first_visit_def)
  have h3: "selectedUser ?t1 = Some alice" and h4: "u_id alice = au_id viewer_A"
    and h5: "newRole ?t1 = R_moderator"
    by (simp_all add: newRole_onChange_def manageRole_click_def alice_def viewer_A_def)
  have h6: "assignRole (Some root) Served ''r1'' 5 Served (fst (snd trip_first_visit), ?t1)
      = (fst trip_assigned, fst (snd trip_assigned), snd (snd trip_assigned))"
    by (simp add: trip_assigned_def)
  have h7: "checkUserRole (Some viewer_A) Served (fst (snd trip_assigned), Admin_init)
      = (fst trip_second_visit, fst (snd trip_second_visit), snd (snd trip_second_visit))"
    by (simp add: trip_second_visit_def)
  have h8: "find (\<lambda>r. user_id r = au_id viewer_A) (user_roles_tbl (fst (snd trip_second_visit)))
      = Some ?row"
    by (simp add: trip_tables viewer_A_def root_is_admin_def)
  have h9: "removeRole (ur_id ?row) Served Served (fst (snd trip_second_visit), snd (snd trip_assigned))
      = (fst trip_removed, fst (snd trip_removed), snd (snd trip_removed))"
    by (simp add: trip_removed_def)
  have h10: "checkUserRole (Some viewer_A) Served (fst (snd trip_removed), Admin_init)
      = (fst trip_third_visit, fst (snd trip_third_visit), snd (snd trip_third_visit))"
    by (simp add: trip_third_visit_def)
  from role_round_trip [OF h1 h2 h3 h4 h5 h6 h7 h8 h9 h10] h1 show ?thesis
    by simp
qed

section \<open>Resolution of a complaint by a signed-in and by a signed-out operator\<close>

text \<open>
  With an operator signed in, a served reply writes the status, the reply, its time and the
  operator to the complaint in one update, and no call of \<open>handleReply\<close> leaves a
  resolved complaint without a reply.
\<close>

lemma handleReply_resolves:
  assumes "selectedComplaint s = Some c" and "trim (replyMessage s) \<noteq> []"
    and "handleReply (Some u) now Served rf (b, s) = (cmp, b', s')"
  shows "complaints_tbl b' =
           map (\<lambda>x. if c_id x = c_id c
                    then x\<lparr>status := Resolved, admin_reply := Some (trim (replyMessage s)),
                           replied_at := Some now, replied_by := Some (au_id u)\<rparr>
                    else x) (complaints_tbl b)"
  using assms
  by (cases rf)
     (auto simp: handleReply_def store_defs Let_def detached_def loadComplaints_def
        apply_patch_def alert_def console_error_def)

lemma handleReply_keeps_reply_with_resolved:
  assumes "\<forall>x \<in> set (complaints_tbl b). status x = Resolved \<longrightarrow> admin_reply x \<noteq> None"
    and "handleReply user now fate rf (b, s) = (cmp, b', s')"
  shows "\<forall>x \<in> set (complaints_tbl b'). status x = Resolved \<longrightarrow> admin_reply x \<noteq> None"
  using assms
  by (cases fate; cases rf)
     (auto simp: handleReply_def store_defs Let_def detached_def loadComplaints_def
        apply_patch_def alert_def console_error_def split: option.splits if_splits)

text \<open>
  C2. The administrator's session goes on after the identity is gone: the resolver does not
  run for an absent identity, so the panel and the reply form stay up. A reply sent then is
  served, and the complaint is resolved with a reply and a reply time and without a
  responder.
\<close>

theorem handleReply_signed_out:
  "render reply_draft = Admin_panel
   \<and> user_effect None Served (fst admin_session, reply_draft) = (fst admin_session, reply_draft)
   \<and> complaints_tbl (fst (snd (handleReply None 7 Served Served (fst admin_session, reply_draft))))
       = [bug_report\<lparr>status := Resolved, admin_reply := Some ''Fixed in v2'',
                       replied_at := Some 7, replied_by := None\<rparr>]"
proof -
  have d: "selectedComplaint reply_draft = Some bug_report"
    "replyMessage reply_draft = ''Fixed in v2''"
    "currentUserRole reply_draft = ''admin''" "isLoading reply_draft = False"
    by (simp_all add: reply_draft_def reply_onChange_def reply_click_def admin_session_view)
  have t: "trim ''Fixed in v2'' = ''Fixed in v2''"
    by (simp add: trim_def js_whitespace_def)
  have "complaints_tbl (fst (snd (handleReply None 7 Served Served (fst admin_session, reply_draft))))
      = map (\<lambda>c. if c_id c = c_id bug_report
                  then apply_patch \<lparr>p_status = Resolved, p_admin_reply = ''Fixed in v2'',
                                     p_replied_at = 7, p_replied_by = None\<rparr> c
                  else c) (complaints_tbl (fst admin_session))"
    by (simp add: handleReply_def d t store_defs Let_def detached_def loadComplaints_def)
  then show ?thesis
    by (simp add: render_def d user_effect_def admin_session_view apply_patch_def bug_report_def)
qed

section \<open>The second Admin dashboard\<close>

lemma AppRoutes_unbound: "AppRoutes user = Inl (ReferenceError ''ModeratorPanel'')"
  by (cases user) (simp_all add: AppRoutes_def route_table_def module_scope_def)

lemma fetchData_requests:
  "requests (fst (snd (fetchData f1 f2 (b, d)))) =
     requests b @ Select_ordered ''complaints'' #
       (case f1 of Crashed e \<Rightarrow> [] | _ \<Rightarrow> [Select_ordered ''contacts''])"
  by (cases f1; cases f2) (simp_all add: fetchData_def store_defs Let_def)

lemma fetchData_thrown:
  assumes "f1 = Crashed e \<or> (\<forall>e'. f1 \<noteq> Crashed e') \<and> f2 = Crashed e"
  shows "fst (fetchData f1 f2 (b, d)) = Rejected e" and "snd (snd (fetchData f1 f2 (b, d))) = d"
  using assms
  by (cases f1; cases f2; simp add: fetchData_def store_defs Let_def)+

lemma fetchData_answered:
  assumes "\<forall>e. f1 \<noteq> Crashed e" and "\<forall>e. f2 \<noteq> Crashed e"
  shows "fst (fetchData f1 f2 (b, d)) = Fulfilled"
    and "snd (snd (fetchData f1 f2 (b, d))) =
           \<lparr>d_complaints = (if f1 = Served then newest_first c_created_at (complaints_tbl b)
                            else d_complaints d),
            d_contacts = (if f2 = Served then newest_first k_created_at (contacts_tbl b)
                          else d_contacts d),
            loading = False\<rparr>"
  using assms
  by (cases f1; cases f2; simp add: fetchData_def store_defs Let_def)+




end
